theory Spec2Isabelle
  imports Complex_Main "HOL-Library.Char_ord" "HOL-Library.List_Lexorder"
begin

section \<open>Conventions of the embedding\<close>

text \<open>
  The scripts compute with Python floats. The embedding reads every price, share
  quantity, cost and equity as an exact \<^typ>\<open>real\<close>: no rounding, no signed zero, and
  a number in every price cell of a bar.
  The values a float has beyond the reals are written out where the source produces
  them: the unbounded threshold \<^verbatim>\<open>float("inf")\<close> of the last commission tier,
  \<^verbatim>\<open>np.nan\<close> in ledger cells and summary fields (\<open>None\<close> of an option), and
  the quotients by zero of the drawdown series.
  Strings stay strings, a raised exception is the \<open>Inl\<close> of a sum.
\<close>

datatype error = ValueError | IndexError | ZeroDivisionError | KeyError

section \<open>backtest.py: constants\<close>

definition FIRST_BAR_TIME :: string where "FIRST_BAR_TIME = ''09:30''"
definition ENTRY_TIME :: string where "ENTRY_TIME = ''09:45''"
definition EXIT_TIME :: string where "EXIT_TIME = ''11:30''"

definition START_EQUITY :: real where "START_EQUITY = 100"
definition ALLOC_PCT :: real where "ALLOC_PCT = 1"
definition FRACTIONAL_SHARES :: bool where "FRACTIONAL_SHARES = True"
definition MIN_FRACTIONAL_SHARES :: real where "MIN_FRACTIONAL_SHARES = 1 / 10000"

definition SLIPPAGE_PER_SHARE :: real where "SLIPPAGE_PER_SHARE = 0"
definition EXTRA_FEES_PER_SHARE :: real where "EXTRA_FEES_PER_SHARE = 0"

definition PRICING_PLAN :: string where "PRICING_PLAN = ''pro_fixed''"

definition PF_RATE_PER_SHARE :: real where "PF_RATE_PER_SHARE = 5 / 1000"
definition PF_MIN_PER_ORDER :: real where "PF_MIN_PER_ORDER = 1"
definition PF_MAX_RATE_OF_TRADE :: real where "PF_MAX_RATE_OF_TRADE = 1 / 100"

definition PT_MIN_PER_ORDER :: real where "PT_MIN_PER_ORDER = 35 / 100"
definition PT_MAX_RATE_OF_TRADE :: real where "PT_MAX_RATE_OF_TRADE = 1 / 100"

text \<open>A tier threshold is a float: a finite number or \<^verbatim>\<open>float("inf")\<close>.\<close>

datatype threshold = Finite real | Inf

fun le_threshold :: "real \<Rightarrow> threshold \<Rightarrow> bool" where
  "le_threshold v (Finite b) = (v \<le> b)"
| "le_threshold v Inf = True"

definition PT_TIERS :: "(threshold \<times> real) list" where
  "PT_TIERS =
     [(Finite 300000, 35 / 10000),
      (Finite 3000000, 20 / 10000),
      (Finite 20000000, 15 / 10000),
      (Finite 100000000, 10 / 10000),
      (Inf, 5 / 10000)]"

definition LITE_RATE_PER_SHARE :: real where "LITE_RATE_PER_SHARE = 2 / 1000"
definition LITE_MIN_PER_ORDER :: real where "LITE_MIN_PER_ORDER = 3 / 1000"

section \<open>backtest.py: the cost model\<close>

text \<open>
  \<^verbatim>\<open>rate_for_tiered\<close>: the \<^verbatim>\<open>for\<close> loop over the tier table returns the rate of the
  first tier whose threshold is not below the volume; the statement after the loop
  returns the rate of the last tier.
\<close>

fun tier_loop :: "real \<Rightarrow> (threshold \<times> real) list \<Rightarrow> real option" where
  "tier_loop v [] = None"
| "tier_loop v ((thr, rate) # rest) =
     (if le_threshold v thr then Some rate else tier_loop v rest)"

definition rate_for_tiered :: "real \<Rightarrow> real" where
  "rate_for_tiered monthly_shares_before =
     (case tier_loop monthly_shares_before PT_TIERS of
        Some rate \<Rightarrow> rate
      | None \<Rightarrow> snd (last PT_TIERS))"

definition commission_one_side :: "real \<Rightarrow> real \<Rightarrow> string \<Rightarrow> real \<Rightarrow> error + real" where
  "commission_one_side shares price plan monthly_shares_before =
     (if shares \<le> 0 \<or> price \<le> 0 then Inr 0
      else
        let trade_value = price * shares in
        if plan = ''pro_fixed'' then
          Inr (min (max (PF_RATE_PER_SHARE * shares) PF_MIN_PER_ORDER)
                   (PF_MAX_RATE_OF_TRADE * trade_value))
        else if plan = ''pro_tiered'' then
          Inr (min (max (rate_for_tiered monthly_shares_before * shares) PT_MIN_PER_ORDER)
                   (PT_MAX_RATE_OF_TRADE * trade_value))
        else if plan = ''lite'' then
          Inr (max (LITE_RATE_PER_SHARE * shares) LITE_MIN_PER_ORDER)
        else Inl ValueError)"

definition full_side_cost :: "real \<Rightarrow> real \<Rightarrow> string \<Rightarrow> real \<Rightarrow> error + real" where
  "full_side_cost shares price plan monthly_shares_before =
     (case commission_one_side shares price plan monthly_shares_before of
        Inl e \<Rightarrow> Inl e
      | Inr comm \<Rightarrow>
          Inr (comm + SLIPPAGE_PER_SHARE * shares + EXTRA_FEES_PER_SHARE * shares))"

text \<open>
  \<^verbatim>\<open>shares_for_trade\<close>. \<^verbatim>\<open>int(raw)\<close> truncates towards zero.
\<close>

definition shares_for_trade :: "real \<Rightarrow> real \<Rightarrow> real" where
  "shares_for_trade equity price =
     (let dollars = equity * ALLOC_PCT in
      if dollars \<le> 0 \<or> price \<le> 0 then 0
      else
        let raw = dollars / price in
        if FRACTIONAL_SHARES then max raw 0
        else max (of_int (if 0 \<le> raw then \<lfloor>raw\<rfloor> else \<lceil>raw\<rceil>)) 0)"

section \<open>backtest.py: bars, ledger rows and the state of a run\<close>

text \<open>
  A row of the frame that \<^verbatim>\<open>load_data\<close> returns: the local timestamp
  (\<^verbatim>\<open>date_local\<close>, here a count of minutes), the local day \<^verbatim>\<open>d\<close>, the time label
  \<^verbatim>\<open>t\<close> ("HH:MM"), the month key and the four prices.
\<close>

record bar =
  date_local :: int
  bar_d :: nat
  bar_t :: string
  bar_month_key :: string
  bar_open :: real
  bar_high :: real
  bar_low :: real
  bar_close :: real

text \<open>
  A ledger row, one dictionary of \<^verbatim>\<open>rows\<close>. A cell that holds \<^verbatim>\<open>np.nan\<close>, or
  that the dictionary of a skipped session leaves out, is \<open>None\<close>.
\<close>

record row =
  date :: nat
  signal :: string
  first_bar_open :: "real option"
  first_bar_close :: "real option"
  entry_price :: "real option"
  exit_price :: "real option"
  exit_reason :: string
  stop_pct_col :: "real option"
  stop_level_col :: "real option"
  shares :: real
  gross_points :: "real option"
  gross_pnl :: real
  gross_ret_pct :: "real option"
  entry_cost :: real
  exit_cost :: real
  total_cost :: real
  net_pnl :: real
  net_ret_pct :: real
  start_equity :: real
  end_equity :: real
  row_month_key :: string
  row_note :: string

text \<open>The variables that \<^verbatim>\<open>run\<close> carries from one session to the next.\<close>

record run_state =
  equity :: real
  monthly_vol :: "string \<rightharpoonup> real"
  rows :: "row list"

definition init_state :: run_state where
  "init_state = \<lparr>equity = START_EQUITY, monthly_vol = Map.empty, rows = []\<rparr>"

text \<open>
  \<^verbatim>\<open>math.isclose(a, b)\<close> of the Python standard library with its default
  tolerances \<^verbatim>\<open>rel_tol=1e-09\<close>, \<^verbatim>\<open>abs_tol=0.0\<close>.
\<close>

definition rel_tol :: real where "rel_tol = 1 / 1000000000"
definition abs_tol :: real where "abs_tol = 0"

definition isclose :: "real \<Rightarrow> real \<Rightarrow> bool" where
  "isclose a b =
     (a = b \<or> \<bar>b - a\<bar> \<le> \<bar>rel_tol * b\<bar> \<or> \<bar>b - a\<bar> \<le> \<bar>rel_tol * a\<bar> \<or> \<bar>b - a\<bar> \<le> abs_tol)"

section \<open>backtest.py: one session of \<^verbatim>\<open>run\<close>\<close>

definition missing_row :: "nat \<Rightarrow> real \<Rightarrow> string \<Rightarrow> row" where
  "missing_row day eq mk =
     \<lparr>date = day, signal = ''skip'',
      first_bar_open = None, first_bar_close = None,
      entry_price = None, exit_price = None, exit_reason = ''missing'',
      stop_pct_col = None, stop_level_col = None,
      shares = 0,
      gross_points = None, gross_pnl = 0, gross_ret_pct = None,
      entry_cost = 0, exit_cost = 0, total_cost = 0,
      net_pnl = 0, net_ret_pct = 0,
      start_equity = eq, end_equity = eq,
      row_month_key = mk, row_note = ''Missing 09:30/09:45/11:30''\<rparr>"

definition doji_row :: "nat \<Rightarrow> real \<Rightarrow> real \<Rightarrow> real \<Rightarrow> string \<Rightarrow> row" where
  "doji_row day f_open f_close eq mk =
     \<lparr>date = day, signal = ''skip'',
      first_bar_open = Some f_open, first_bar_close = Some f_close,
      entry_price = None, exit_price = None, exit_reason = ''doji_skip'',
      stop_pct_col = None, stop_level_col = None,
      shares = 0,
      gross_points = None, gross_pnl = 0, gross_ret_pct = None,
      entry_cost = 0, exit_cost = 0, total_cost = 0,
      net_pnl = 0, net_ret_pct = 0,
      start_equity = eq, end_equity = eq,
      row_month_key = mk, row_note = ''Doji first bar''\<rparr>"

definition too_small_row :: "nat \<Rightarrow> real \<Rightarrow> real \<Rightarrow> real \<Rightarrow> real \<Rightarrow> string \<Rightarrow> row" where
  "too_small_row day f_open f_close entry eq mk =
     \<lparr>date = day, signal = ''skip'',
      first_bar_open = Some f_open, first_bar_close = Some f_close,
      entry_price = Some entry, exit_price = None, exit_reason = ''too_small'',
      stop_pct_col = None, stop_level_col = None,
      shares = 0,
      gross_points = Some 0, gross_pnl = 0, gross_ret_pct = Some 0,
      entry_cost = 0, exit_cost = 0, total_cost = 0,
      net_pnl = 0, net_ret_pct = 0,
      start_equity = eq, end_equity = eq,
      row_month_key = mk, row_note = ''Equity too small for min fractional lot''\<rparr>"

text \<open>
  The bars scanned for the stop: those of the day whose timestamp is after the entry
  bar's and not after the exit bar's, in the order of the sorted group.
\<close>

definition subsequent_bars :: "bar list \<Rightarrow> bar \<Rightarrow> bar \<Rightarrow> bar list" where
  "subsequent_bars g en0 ex0 =
     filter (\<lambda>b. date_local en0 < date_local b \<and> date_local b \<le> date_local ex0) g"

text \<open>
  The \<^verbatim>\<open>for\<close> loop over \<^verbatim>\<open>subsequent\<close>. It starts from the time exit at the 11:30
  close and leaves at the first bar that reaches the stop.
\<close>

fun scan_stop :: "string \<Rightarrow> real \<Rightarrow> real \<Rightarrow> bar list \<Rightarrow> real \<times> string" where
  "scan_stop sig stop_level exit_1130 [] = (exit_1130, ''time_exit'')"
| "scan_stop sig stop_level exit_1130 (b # rest) =
     (if sig = ''long'' then
        (if bar_low b \<le> stop_level then (stop_level, ''stop_hit'')
         else scan_stop sig stop_level exit_1130 rest)
      else
        (if bar_high b \<ge> stop_level then (stop_level, ''stop_hit'')
         else scan_stop sig stop_level exit_1130 rest))"

text \<open>The stop level of a trade, from its entry price.\<close>

definition stop_level_of :: "string \<Rightarrow> real \<Rightarrow> real \<Rightarrow> real" where
  "stop_level_of sig entry stop_pct =
     (if sig = ''long'' then entry * (1 - stop_pct) else entry * (1 + stop_pct))"

text \<open>
  A traded session, from the entry costs to the appended row. \<open>vol0\<close> is
  \<^verbatim>\<open>monthly_vol[month_key]\<close> when the session starts. The result is the row, the new
  equity and the new monthly volume of the month. The float division
  \<^verbatim>\<open>exit_price / entry\<close> raises on a zero entry price.
\<close>

definition trade_session ::
  "real \<Rightarrow> nat \<Rightarrow> string \<Rightarrow> bar list \<Rightarrow> bar \<Rightarrow> bar \<Rightarrow> real \<Rightarrow> real \<Rightarrow> string \<Rightarrow> real \<Rightarrow> real \<Rightarrow> real \<Rightarrow>
     error + (row \<times> real \<times> real)" where
  "trade_session stop_pct day sig g en0 ex0 f_open f_close mk eq vol0 sh =
     (let entry = bar_close en0;
          exit_1130 = bar_close ex0;
          dir = (if sig = ''long'' then 1 else - 1 :: real)
      in
      case full_side_cost sh entry PRICING_PLAN vol0 of
        Inl e \<Rightarrow> Inl e
      | Inr entry_cost_v \<Rightarrow>
          let vol1 = vol0 + sh;
              stop_level = stop_level_of sig entry stop_pct;
              (exit_price_v, exit_reason_v) =
                 scan_stop sig stop_level exit_1130 (subsequent_bars g en0 ex0);
              gross_points_v = dir * (exit_price_v - entry)
          in
          if entry = 0 then Inl ZeroDivisionError
          else
            let gross_ret_pct_v = dir * (exit_price_v / entry - 1);
                gross_pnl_dol = sh * gross_points_v
            in
            case full_side_cost sh exit_price_v PRICING_PLAN vol1 of
              Inl e \<Rightarrow> Inl e
            | Inr exit_cost_v \<Rightarrow>
                let vol2 = vol1 + sh;
                    total_cost_v = entry_cost_v + exit_cost_v;
                    net_pnl_dol = gross_pnl_dol - total_cost_v;
                    deployed = eq * ALLOC_PCT;
                    net_ret_pct_v = (if deployed > 0 then net_pnl_dol / deployed else 0);
                    start_eq = eq;
                    eq' = eq + net_pnl_dol
                in
                Inr (\<lparr>date = day, signal = sig,
                      first_bar_open = Some f_open, first_bar_close = Some f_close,
                      entry_price = Some entry, exit_price = Some exit_price_v,
                      exit_reason = exit_reason_v,
                      stop_pct_col = Some stop_pct, stop_level_col = Some stop_level,
                      shares = sh,
                      gross_points = Some gross_points_v, gross_pnl = gross_pnl_dol,
                      gross_ret_pct = Some gross_ret_pct_v,
                      entry_cost = entry_cost_v, exit_cost = exit_cost_v,
                      total_cost = total_cost_v,
                      net_pnl = net_pnl_dol, net_ret_pct = net_ret_pct_v,
                      start_equity = start_eq, end_equity = eq',
                      row_month_key = mk, row_note = []\<rparr>,
                     eq', vol2))"

text \<open>
  The month's volume after \<^verbatim>\<open>if month_key not in monthly_vol: monthly_vol[month_key] = 0.0\<close>.
\<close>

definition mv_init :: "(string \<rightharpoonup> real) \<Rightarrow> string \<Rightarrow> (string \<rightharpoonup> real)" where
  "mv_init mv mk = (case mv mk of None \<Rightarrow> mv(mk \<mapsto> 0) | Some v \<Rightarrow> mv)"

text \<open>
  A session once its group \<open>g\<close> is sorted and its month key \<open>mk\<close> is read: \<open>fb\<close>,
  \<open>en\<close> and \<open>ex\<close> are the rows of the group at 09:30, 09:45 and 11:30. When one of
  them is empty the session is recorded as missing; otherwise the first row of each is
  used, and the session is a doji, too small, or traded.
\<close>

fun session_body ::
  "real \<Rightarrow> nat \<Rightarrow> bar list \<Rightarrow> string \<Rightarrow> bar list \<Rightarrow> bar list \<Rightarrow> bar list \<Rightarrow> run_state \<Rightarrow>
     error + run_state" where
  "session_body stop_pct day g mk (fb0 # fbs) (en0 # ens) (ex0 # exs) st =
     (let mv = mv_init (monthly_vol st) mk;
          vol0 = (case mv mk of None \<Rightarrow> 0 | Some v \<Rightarrow> v);
          eq = equity st;
          f_open = bar_open fb0;
          f_close = bar_close fb0;
          entry = bar_close en0
      in
      if isclose f_close f_open then
        Inr (st\<lparr>monthly_vol := mv,
                 rows := rows st @ [doji_row day f_open f_close eq mk]\<rparr>)
      else
        let sig = (if f_close > f_open then ''long'' else ''short'');
            sh = shares_for_trade eq entry
        in
        if FRACTIONAL_SHARES \<and> sh < MIN_FRACTIONAL_SHARES then
          Inr (st\<lparr>monthly_vol := mv,
                   rows := rows st @ [too_small_row day f_open f_close entry eq mk]\<rparr>)
        else
          (case trade_session stop_pct day sig g en0 ex0 f_open f_close mk eq vol0 sh of
             Inl e \<Rightarrow> Inl e
           | Inr (r, eq', vol2) \<Rightarrow>
               Inr \<lparr>equity = eq', monthly_vol = mv(mk \<mapsto> vol2),
                    rows = rows st @ [r]\<rparr>))"
| "session_body stop_pct day g mk fb en ex st =
     Inr (st\<lparr>monthly_vol := mv_init (monthly_vol st) mk,
              rows := rows st @ [missing_row day (equity st) mk]\<rparr>)"

text \<open>
  The body of the loop over the days: \<open>g0\<close> is the group of the day. The group is
  sorted by timestamp (bars of equal timestamp keep their order) and the month key is
  that of its first row; \<^verbatim>\<open>.iloc[0]\<close> on an empty group raises.
\<close>

definition session_step :: "real \<Rightarrow> nat \<Rightarrow> bar list \<Rightarrow> run_state \<Rightarrow> error + run_state" where
  "session_step stop_pct day g0 st =
     (let g = sort_key date_local g0 in
      case g of
        [] \<Rightarrow> Inl IndexError
      | b0 # _ \<Rightarrow>
          session_body stop_pct day g (bar_month_key b0)
            (filter (\<lambda>b. bar_t b = FIRST_BAR_TIME) g)
            (filter (\<lambda>b. bar_t b = ENTRY_TIME) g)
            (filter (\<lambda>b. bar_t b = EXIT_TIME) g) st)"

text \<open>
  \<^verbatim>\<open>df.groupby("d", sort=True)\<close>: one group per day, the days ascending, each group
  the rows of that day in the order of the frame.
\<close>

definition groupby_d :: "bar list \<Rightarrow> (nat \<times> bar list) list" where
  "groupby_d df =
     map (\<lambda>day. (day, filter (\<lambda>b. bar_d b = day) df)) (sort (remdups (map bar_d df)))"

fun run_loop :: "real \<Rightarrow> (nat \<times> bar list) list \<Rightarrow> run_state \<Rightarrow> error + run_state" where
  "run_loop stop_pct [] st = Inr st"
| "run_loop stop_pct ((day, g0) # rest) st =
     (case session_step stop_pct day g0 st of
        Inl e \<Rightarrow> Inl e
      | Inr st' \<Rightarrow> run_loop stop_pct rest st')"

definition simulate :: "bar list \<Rightarrow> real \<Rightarrow> error + run_state" where
  "simulate df stop_pct = run_loop stop_pct (groupby_d df) init_state"

section \<open>backtest.py: the ledger and the summary\<close>

text \<open>
  \<^verbatim>\<open>trades = pd.DataFrame(rows).sort_values("date")\<close>: the frame of the rows sorted
  by date. A frame built from no row has no column, and sorting it by the column
  "date" raises \<^verbatim>\<open>KeyError\<close>.
\<close>

definition trades_of :: "row list \<Rightarrow> error + row list" where
  "trades_of rs = (if rs = [] then Inl KeyError else Inr (sort_key date rs))"

text \<open>
  Every row holds a number in \<^verbatim>\<open>end_equity_$\<close>, so the forward fill and the fill of
  missing cells with the starting equity change nothing: the equity curve is that
  column.
\<close>

definition equity_curve :: "row list \<Rightarrow> real list" where
  "equity_curve trades = map end_equity trades"

text \<open>
  The value of a float cell of the drawdown series: a division of floats by zero in a
  pandas series gives an infinity or \<^verbatim>\<open>nan\<close> and raises nothing.
\<close>

datatype fnum = Fin real | PInf | NInf | NaN

definition fdiv :: "real \<Rightarrow> real \<Rightarrow> fnum" where
  "fdiv x y =
     (if y \<noteq> 0 then Fin (x / y)
      else if x > 0 then PInf else if x < 0 then NInf else NaN)"

fun fminus1 :: "fnum \<Rightarrow> fnum" where
  "fminus1 (Fin r) = Fin (r - 1)"
| "fminus1 v = v"

fun ftimes100 :: "fnum \<Rightarrow> fnum" where
  "ftimes100 (Fin r) = Fin (r * 100)"
| "ftimes100 v = v"

text \<open>The minimum of two cells where \<^verbatim>\<open>nan\<close> is passed over, as \<^verbatim>\<open>Series.min\<close> does.\<close>

fun fnum_min :: "fnum \<Rightarrow> fnum \<Rightarrow> fnum" where
  "fnum_min NaN v = v"
| "fnum_min u NaN = u"
| "fnum_min NInf v = NInf"
| "fnum_min u NInf = NInf"
| "fnum_min PInf v = v"
| "fnum_min u PInf = u"
| "fnum_min (Fin a) (Fin b) = Fin (min a b)"

definition series_min :: "fnum list \<Rightarrow> fnum" where
  "series_min xs = foldr fnum_min xs NaN"

fun cummax_from :: "real \<Rightarrow> real list \<Rightarrow> real list" where
  "cummax_from m [] = []"
| "cummax_from m (x # xs) = max m x # cummax_from (max m x) xs"

definition cummax :: "real list \<Rightarrow> real list" where
  "cummax xs = (case xs of [] \<Rightarrow> [] | x # rest \<Rightarrow> x # cummax_from x rest)"

definition drawdowns :: "real list \<Rightarrow> fnum list" where
  "drawdowns curve = map (\<lambda>(e, m). fminus1 (fdiv e m)) (zip curve (cummax curve))"

text \<open>
  The summary variables of \<^verbatim>\<open>run\<close>, before they are rounded for the report. A
  \<^verbatim>\<open>np.nan\<close> is \<open>None\<close> (or \<open>NaN\<close> for the drawdown).
\<close>

record summary =
  n_trades :: nat
  wins :: nat
  losses :: nat
  win_rate :: "real option"
  ending_equity :: real
  total_return_pct :: "real option"
  max_dd_pct :: fnum
  stops_hit :: nat

definition summarize :: "row list \<Rightarrow> summary" where
  "summarize trades =
     (let valid = filter (\<lambda>r. signal r \<in> set [''long'', ''short'']) trades;
          n = length valid;
          w = length (filter (\<lambda>r. net_pnl r > 0) valid);
          l = length (filter (\<lambda>r. net_pnl r < 0) valid);
          curve = equity_curve trades;
          ending = (if trades \<noteq> [] then last curve else START_EQUITY);
          dd = drawdowns curve
      in
      \<lparr>n_trades = n, wins = w, losses = l,
       win_rate = (if n \<noteq> 0 then Some (real w / real n * 100) else None),
       ending_equity = ending,
       total_return_pct =
         (if START_EQUITY > 0 then Some ((ending / START_EQUITY - 1) * 100) else None),
       max_dd_pct = (if dd \<noteq> [] then ftimes100 (series_min dd) else NaN),
       stops_hit = length (filter (\<lambda>r. exit_reason r = ''stop_hit'') trades)\<rparr>)"

text \<open>
  \<^verbatim>\<open>run\<close>: the ledger and the summary of a frame of bars. The loop over the days
  comes first, then the frame of the rows, then the summary.
\<close>

definition run :: "bar list \<Rightarrow> real \<Rightarrow> error + (row list \<times> summary)" where
  "run df stop_pct =
     (case simulate df stop_pct of
        Inl e \<Rightarrow> Inl e
      | Inr st \<Rightarrow>
          (case trades_of (rows st) of
             Inl e \<Rightarrow> Inl e
           | Inr trades \<Rightarrow> Inr (trades, summarize trades)))"

section \<open>range_breakout.py: the body of the loop over the days\<close>




definition rb_direction :: "real \<Rightarrow> real \<Rightarrow> string" where
  "rb_direction open_v close_v = (if close_v > open_v then ''LONG'' else ''SHORT'')"




section \<open>research_algo.py: the direction of a day\<close>

text \<open>
  The direction block of \<^verbatim>\<open>compute_daily_points\<close>: the sign and the label of the day
  from the open and the close of the 09:30 bar.
\<close>

datatype label = GREEN_measure_up | RED_measure_down | DOJI_no_measurement

definition points_direction :: "real \<Rightarrow> real \<Rightarrow> int \<times> label" where
  "points_direction o0930 c0930 =
     (if c0930 > o0930 then (1, GREEN_measure_up)
      else if c0930 < o0930 then (- 1, RED_measure_down)
      else (0, DOJI_no_measurement))"

section \<open>The running sum of the specification\<close>

text \<open>
  The replay of the ledger that the specification describes: the running sum of the
  net P&L values from a starting equity, and a ledger whose rows chain, each row
  starting at the equity where the previous one ended and ending at its start plus its
  net P&L, a skipped row ending where it started.
\<close>

fun running_sum :: "real \<Rightarrow> real list \<Rightarrow> real list" where
  "running_sum e [] = []"
| "running_sum e (p # ps) = (e + p) # running_sum (e + p) ps"

fun ledger_replays :: "real \<Rightarrow> row list \<Rightarrow> bool" where
  "ledger_replays e [] = True"
| "ledger_replays e (r # rs) =
     (start_equity r = e \<and> end_equity r = e + net_pnl r \<and>
      (signal r = ''skip'' \<longrightarrow> net_pnl r = 0 \<and> end_equity r = e) \<and>
      ledger_replays (end_equity r) rs)"

section \<open>Concrete sessions\<close>

definition mk_bar ::
  "int \<Rightarrow> nat \<Rightarrow> string \<Rightarrow> string \<Rightarrow> real \<Rightarrow> real \<Rightarrow> real \<Rightarrow> real \<Rightarrow> bar" where
  "mk_bar ts day lbl mk op hi lo cl =
     \<lparr>date_local = ts, bar_d = day, bar_t = lbl, bar_month_key = mk,
      bar_open = op, bar_high = hi, bar_low = lo, bar_close = cl\<rparr>"

text \<open>A green first bar, entry at 100, no bar down to the stop: a long trade held to 11:30.\<close>

definition ex_long_day :: "bar list" where
  "ex_long_day =
     [mk_bar 570 1 ''09:30'' ''2024-01'' 100 101 100 101,
      mk_bar 585 1 ''09:45'' ''2024-01'' 101 101 100 100,
      mk_bar 600 1 ''10:00'' ''2024-01'' 100 (1004 / 10) (998 / 10) (1002 / 10),
      mk_bar 690 1 ''11:30'' ''2024-01'' (1002 / 10) (1006 / 10) (1001 / 10) (1005 / 10)]"

text \<open>A red first bar, entry at 100, the 10:00 bar trades up through the stop of a short.\<close>

definition ex_short_stop_day :: "bar list" where
  "ex_short_stop_day =
     [mk_bar 2010 2 ''09:30'' ''2024-01'' 101 101 100 100,
      mk_bar 2025 2 ''09:45'' ''2024-01'' 100 (1002 / 10) (999 / 10) 100,
      mk_bar 2040 2 ''10:00'' ''2024-01'' 100 (1006 / 10) (999 / 10) (1003 / 10),
      mk_bar 2130 2 ''11:30'' ''2024-01'' (1003 / 10) (1004 / 10) 99 99]"

text \<open>A day of February with one bar at 10:00 only.\<close>

definition ex_missing_day :: "bar list" where
  "ex_missing_day = [mk_bar 46680 33 ''10:00'' ''2024-02'' 100 101 99 100]"

text \<open>A first bar that closes one ten-millionth above its open of 400.\<close>

definition ex_near_doji_day :: "bar list" where
  "ex_near_doji_day =
     [mk_bar 570 1 ''09:30'' ''2024-01'' 400 401 399 (4000000001 / 10000000),
      mk_bar 585 1 ''09:45'' ''2024-01'' 400 401 400 400,
      mk_bar 690 1 ''11:30'' ''2024-01'' 400 402 400 401]"

text \<open>
  A short from 100 whose 10:00 bar trades up to 250: with a stop of 100 percent the
  fill at 200 and the costs take more than the whole equity.
\<close>

definition ex_crash_day :: "bar list" where
  "ex_crash_day =
     [mk_bar 570 1 ''09:30'' ''2024-01'' 101 101 100 100,
      mk_bar 585 1 ''09:45'' ''2024-01'' 100 100 100 100,
      mk_bar 600 1 ''10:00'' ''2024-01'' 100 250 100 240,
      mk_bar 690 1 ''11:30'' ''2024-01'' 240 240 230 230]"




section \<open>The cost model: tiers, guards and caps\<close>

text \<open>
  C4. For a monthly volume \<open>v \<ge> 0\<close> the tiered rate is the rate of the first tier
  of the table, in its order, whose threshold is at least \<open>v\<close>; the thresholds ascend
  and the last one is unbounded; and a larger volume never gets a larger rate.
\<close>

theorem rate_for_tiered_first_tier:
  assumes "0 \<le> v" and "v \<le> w"
  shows "map_option snd (find (\<lambda>tier. le_threshold v (fst tier)) PT_TIERS)
           = Some (rate_for_tiered v)
       \<and> map fst PT_TIERS = [Finite 300000, Finite 3000000, Finite 20000000, Finite 100000000, Inf]
       \<and> rate_for_tiered w \<le> rate_for_tiered v"
  using assms by (simp add: rate_for_tiered_def PT_TIERS_def)

theorem rate_for_tiered_first_tier_witness:
  "rate_for_tiered 100 = 35 / 10000 \<and> rate_for_tiered 400000 = 20 / 10000
   \<and> rate_for_tiered 400000 \<le> rate_for_tiered 100"
  using rate_for_tiered_first_tier [of 100 400000]
  by (simp add: rate_for_tiered_def PT_TIERS_def)

text \<open>
  C6, as the code has it. An unknown plan raises only for a real order: with positive
  shares and a positive price the commission, and with it the cost of the side, is the
  error. The guard on the quantities comes first.
\<close>

theorem unknown_plan_raises:
  assumes "plan \<noteq> ''pro_fixed''" and "plan \<noteq> ''pro_tiered''" and "plan \<noteq> ''lite''"
    and "0 < sh" and "0 < price"
  shows "commission_one_side sh price plan mv = Inl ValueError
       \<and> full_side_cost sh price plan mv = Inl ValueError"
  using assms by (simp add: commission_one_side_def full_side_cost_def)

theorem unknown_plan_raises_witness:
  "commission_one_side 10 100 ''gold'' 0 = Inl ValueError
   \<and> full_side_cost 10 100 ''gold'' 0 = Inl ValueError"
  using unknown_plan_raises [of "''gold''" 10 100 0] by simp

text \<open>
  C6, as stated, fails: for the unknown plan "gold" and zero shares the cost model
  returns the cost 0 and raises nothing.
\<close>

theorem unknown_plan_zero_shares_counterexample:
  "''gold'' \<noteq> ''pro_fixed'' \<and> ''gold'' \<noteq> ''pro_tiered'' \<and> ''gold'' \<noteq> ''lite''
   \<and> commission_one_side 0 100 ''gold'' 0 = Inr 0
   \<and> full_side_cost 0 100 ''gold'' 0 = Inr 0"
  by (simp add: commission_one_side_def full_side_cost_def)

text \<open>
  C7. With shares or price not positive the one-sided cost, commission plus slippage
  plus pass-through fees, is 0, for every plan string and every monthly volume.
\<close>

theorem full_side_cost_noop:
  assumes "sh \<le> 0 \<or> price \<le> 0"
  shows "full_side_cost sh price plan mv = Inr 0"
  using assms
  by (auto simp add: commission_one_side_def full_side_cost_def
      SLIPPAGE_PER_SHARE_def EXTRA_FEES_PER_SHARE_def)

theorem full_side_cost_noop_witness:
  "full_side_cost 0 100 ''pro_tiered'' 500000 = Inr 0
   \<and> full_side_cost 10 0 ''lite'' 0 = Inr 0
   \<and> full_side_cost (- 3) 100 ''pro_fixed'' 0 = Inr 0"
  using full_side_cost_noop [of 0 100 "''pro_tiered''" 500000]
    full_side_cost_noop [of 10 0 "''lite''" 0]
    full_side_cost_noop [of "- 3" 100 "''pro_fixed''" 0]
  by simp

text \<open>
  C8. For positive shares and price the commission of the flat-rate plan and of the
  tiered plan is returned and is at most one percent of the trade value.
\<close>

theorem commission_capped:
  assumes "0 < sh" and "0 < price" and "plan = ''pro_fixed'' \<or> plan = ''pro_tiered''"
  shows "\<exists>c. commission_one_side sh price plan mv = Inr c \<and> c \<le> 1 / 100 * price * sh"
  using assms
  by (auto simp add: commission_one_side_def PF_MAX_RATE_OF_TRADE_def
      PT_MAX_RATE_OF_TRADE_def Let_def)

theorem commission_capped_witness:
  "commission_one_side 1 100 ''pro_fixed'' 0 = Inr 1
   \<and> commission_one_side 1000 100 ''pro_tiered'' 400000 = Inr 2
   \<and> (1::real) \<le> 1 / 100 * 100 * 1 \<and> (2::real) \<le> 1 / 100 * 100 * 1000"
  using commission_capped [of 1 100 "''pro_fixed''" 0]
    commission_capped [of 1000 100 "''pro_tiered''" 400000]
  by (simp add: commission_one_side_def PF_MAX_RATE_OF_TRADE_def PT_MAX_RATE_OF_TRADE_def
      PF_RATE_PER_SHARE_def PF_MIN_PER_ORDER_def PT_MIN_PER_ORDER_def
      rate_for_tiered_def PT_TIERS_def Let_def)

section \<open>A session always returns a row\<close>

text \<open>
  With the plan of the source the cost of a side never raises, and a position of at
  least the minimum lot has a positive equity and a positive entry price, so the
  division by the entry price never raises either.
\<close>

lemma full_side_cost_PRICING_PLAN:
  "\<exists>c. full_side_cost sh p PRICING_PLAN v = Inr c"
  by (simp add: full_side_cost_def commission_one_side_def PRICING_PLAN_def Let_def)

lemma shares_for_trade_nonpos_equity:
  "eq \<le> 0 \<Longrightarrow> shares_for_trade eq p = 0"
  by (simp add: shares_for_trade_def ALLOC_PCT_def)

lemma shares_for_trade_lot:
  "\<not> shares_for_trade eq p < MIN_FRACTIONAL_SHARES \<Longrightarrow> 0 < eq \<and> 0 < p"
  by (auto simp add: shares_for_trade_def ALLOC_PCT_def MIN_FRACTIONAL_SHARES_def Let_def
      split: if_splits)

lemma trade_session_Inr:
  assumes "bar_close en0 \<noteq> 0"
  shows "\<exists>r. trade_session stop_pct day sig g en0 ex0 f_open f_close mk eq vol0 sh =
            Inr (r, eq + net_pnl r, vol0 + sh + sh)
          \<and> signal r = sig \<and> date r = day \<and> shares r = sh
          \<and> start_equity r = eq \<and> end_equity r = eq + net_pnl r
          \<and> entry_price r = Some (bar_close en0)
          \<and> exit_price r = Some (fst (scan_stop sig (stop_level_of sig (bar_close en0) stop_pct)
                 (bar_close ex0) (subsequent_bars g en0 ex0)))
          \<and> exit_reason r = snd (scan_stop sig (stop_level_of sig (bar_close en0) stop_pct)
                 (bar_close ex0) (subsequent_bars g en0 ex0))"
proof -
  obtain c1 where c1: "full_side_cost sh (bar_close en0) PRICING_PLAN vol0 = Inr c1"
    using full_side_cost_PRICING_PLAN by blast
  obtain xp xr where sc: "scan_stop sig (stop_level_of sig (bar_close en0) stop_pct)
                 (bar_close ex0) (subsequent_bars g en0 ex0) = (xp, xr)"
    by (cases "scan_stop sig (stop_level_of sig (bar_close en0) stop_pct)
                 (bar_close ex0) (subsequent_bars g en0 ex0)") auto
  obtain c2 where c2: "full_side_cost sh xp PRICING_PLAN (vol0 + sh) = Inr c2"
    using full_side_cost_PRICING_PLAN by blast
  show ?thesis
    using assms c1 c2 sc
    by (simp add: trade_session_def Let_def)
qed

lemma sort_key_nonempty: "xs \<noteq> [] \<Longrightarrow> \<exists>y ys. sort_key f xs = y # ys \<and> y \<in> set xs"
proof -
  assume "xs \<noteq> []"
  then have "sort_key f xs \<noteq> []" by (metis length_sort length_0_conv)
  then obtain y ys where e: "sort_key f xs = y # ys" by (cases "sort_key f xs") auto
  then have "y \<in> set (sort_key f xs)" by simp
  then have "y \<in> set xs" by simp
  with e show ?thesis by blast
qed

lemma session_body_missing:
  "fb = [] \<or> en = [] \<or> ex = [] \<Longrightarrow>
   session_body stop_pct day g mk fb en ex st =
     Inr (st\<lparr>monthly_vol := mv_init (monthly_vol st) mk,
              rows := rows st @ [missing_row day (equity st) mk]\<rparr>)"
  by (cases fb; cases en; cases ex) simp_all

lemma mv_init_same: "mv_init mv mk mk = Some (case mv mk of None \<Rightarrow> 0 | Some v \<Rightarrow> v)"
  by (simp add: mv_init_def split: option.splits)

lemma session_body_outcome:
  "\<exists>r mv'. session_body stop_pct day g mk fb en ex st =
            Inr \<lparr>equity = end_equity r, monthly_vol = mv', rows = rows st @ [r]\<rparr>
     \<and> date r = day \<and> start_equity r = equity st \<and> end_equity r = equity st + net_pnl r
     \<and> (signal r = ''long'' \<or> signal r = ''short'' \<or> signal r = ''skip'')
     \<and> (signal r = ''skip'' \<longrightarrow> net_pnl r = 0 \<and> shares r = 0 \<and>
           mv' = mv_init (monthly_vol st) mk)
     \<and> (equity st \<le> 0 \<longrightarrow> signal r = ''skip'')"
proof (cases "fb = [] \<or> en = [] \<or> ex = []")
  case True
  show ?thesis
    unfolding session_body_missing[OF True]
    by (intro exI[of _ "missing_row day (equity st) mk"] exI[of _ "mv_init (monthly_vol st) mk"])
       (simp add: missing_row_def)
next
  case False
  then obtain fb0 fbs en0 ens ex0 exs where
    f: "fb = fb0 # fbs" "en = en0 # ens" "ex = ex0 # exs"
    by (cases fb; cases en; cases ex) auto
  let ?mv = "mv_init (monthly_vol st) mk"
  show ?thesis
  proof (cases "isclose (bar_close fb0) (bar_open fb0)")
    case True
    then show ?thesis unfolding f
      by (intro exI[of _ "doji_row day (bar_open fb0) (bar_close fb0) (equity st) mk"] exI[of _ ?mv])
         (simp add: doji_row_def Let_def)
  next
    case nd: False
    show ?thesis
    proof (cases "shares_for_trade (equity st) (bar_close en0) < MIN_FRACTIONAL_SHARES")
      case True
      then show ?thesis unfolding f using nd
        by (intro exI[of _ "too_small_row day (bar_open fb0) (bar_close fb0) (bar_close en0) (equity st) mk"] exI[of _ ?mv])
           (simp add: too_small_row_def Let_def FRACTIONAL_SHARES_def)
    next
      case big: False
      from shares_for_trade_lot[OF big] have pos: "0 < equity st" "bar_close en0 \<noteq> 0" by auto
      let ?sig = "if bar_close fb0 > bar_open fb0 then ''long'' else ''short''"
      let ?vol0 = "case monthly_vol st mk of None \<Rightarrow> 0 | Some v \<Rightarrow> v"
      obtain r where r: "trade_session stop_pct day ?sig g en0 ex0 (bar_open fb0) (bar_close fb0) mk
           (equity st) ?vol0 (shares_for_trade (equity st) (bar_close en0)) =
            Inr (r, equity st + net_pnl r, ?vol0 + shares_for_trade (equity st) (bar_close en0) + shares_for_trade (equity st) (bar_close en0))"
        "signal r = ?sig" "date r = day" "start_equity r = equity st" "end_equity r = equity st + net_pnl r"
        using trade_session_Inr[OF pos(2)] by blast
      have "session_body stop_pct day g mk fb en ex st =
          Inr \<lparr>equity = end_equity r, monthly_vol = ?mv(mk \<mapsto> ?vol0 + shares_for_trade (equity st) (bar_close en0) + shares_for_trade (equity st) (bar_close en0)),
             rows = rows st @ [r]\<rparr>"
        unfolding f using nd big r(1) r(5)
        by (simp add: Let_def mv_init_same)
      then show ?thesis using r(2-5) pos(1)
        by (intro exI[of _ r] exI[of _ "?mv(mk \<mapsto> ?vol0 + shares_for_trade (equity st) (bar_close en0) + shares_for_trade (equity st) (bar_close en0))"])
           (simp split: if_splits)
    qed
  qed
qed

lemma session_step_outcome:
  assumes ne: "g0 \<noteq> []"
  shows "\<exists>r mv'. session_step stop_pct day g0 st =
            Inr \<lparr>equity = end_equity r, monthly_vol = mv', rows = rows st @ [r]\<rparr>
     \<and> date r = day \<and> start_equity r = equity st \<and> end_equity r = equity st + net_pnl r
     \<and> (signal r = ''long'' \<or> signal r = ''short'' \<or> signal r = ''skip'')
     \<and> (signal r = ''skip'' \<longrightarrow> net_pnl r = 0 \<and> shares r = 0 \<and>
           (\<exists>b\<in>set g0. mv' = mv_init (monthly_vol st) (bar_month_key b)))
     \<and> (equity st \<le> 0 \<longrightarrow> signal r = ''skip'')"
proof -
  obtain b0 bs where g: "sort_key date_local g0 = b0 # bs" and b0: "b0 \<in> set g0"
    using sort_key_nonempty[OF ne] by blast
  have e: "session_step stop_pct day g0 st =
     session_body stop_pct day (b0 # bs) (bar_month_key b0)
            (filter (\<lambda>b. bar_t b = FIRST_BAR_TIME) (b0 # bs))
            (filter (\<lambda>b. bar_t b = ENTRY_TIME) (b0 # bs))
            (filter (\<lambda>b. bar_t b = EXIT_TIME) (b0 # bs)) st"
    unfolding session_step_def Let_def g by simp
  show ?thesis unfolding e
    using session_body_outcome[of stop_pct day "b0 # bs" "bar_month_key b0" _ _ _ st] b0
    by blast
qed

section \<open>The loop over the days\<close>

lemma groupby_d_nonempty: "p \<in> set (groupby_d df) \<Longrightarrow> snd p \<noteq> []"
  by (auto simp add: groupby_d_def filter_empty_conv)

lemma groupby_d_days: "map fst (groupby_d df) = sort (remdups (map bar_d df))"
  by (simp add: groupby_d_def comp_def)

lemma run_loop_outcome:
  assumes "\<forall>p\<in>set gs. snd p \<noteq> []"
  shows "\<exists>st' new. run_loop stop_pct gs st = Inr st' \<and> rows st' = rows st @ new
     \<and> map date new = map fst gs \<and> ledger_replays (equity st) new
     \<and> equity st' = last (equity st # map end_equity new)
     \<and> (\<forall>r\<in>set new. signal r = ''long'' \<or> signal r = ''short'' \<or> signal r = ''skip'')"
  using assms
proof (induction gs arbitrary: st)
  case Nil
  then show ?case by simp
next
  case (Cons p gs)
  obtain day g0 where p: "p = (day, g0)" by (cases p)
  from Cons.prems p have ne: "g0 \<noteq> []" and rest: "\<forall>p\<in>set gs. snd p \<noteq> []" by auto
  obtain r mv' where s1: "session_step stop_pct day g0 st =
            Inr \<lparr>equity = end_equity r, monthly_vol = mv', rows = rows st @ [r]\<rparr>"
     and r: "date r = day" "start_equity r = equity st" "end_equity r = equity st + net_pnl r"
       "signal r = ''long'' \<or> signal r = ''short'' \<or> signal r = ''skip''"
       "signal r = ''skip'' \<longrightarrow> net_pnl r = 0"
    using session_step_outcome[OF ne, of stop_pct day st] by blast
  let ?st1 = "\<lparr>equity = end_equity r, monthly_vol = mv', rows = rows st @ [r]\<rparr>"
  obtain st' new where ih: "run_loop stop_pct gs ?st1 = Inr st'" "rows st' = rows ?st1 @ new"
     "map date new = map fst gs" "ledger_replays (equity ?st1) new"
     "equity st' = last (equity ?st1 # map end_equity new)"
     "\<forall>r\<in>set new. signal r = ''long'' \<or> signal r = ''short'' \<or> signal r = ''skip''"
    using Cons.IH[OF rest, of ?st1] by blast
  show ?case
    using s1 r ih p
    by (intro exI[of _ st'] exI[of _ "r # new"]) auto
qed

lemma ledger_replays_running_sum:
  "ledger_replays e rs \<Longrightarrow> map end_equity rs = running_sum e (map net_pnl rs)"
  by (induction rs arbitrary: e) auto

lemma ledger_replays_all_skip:
  "ledger_replays e rs \<Longrightarrow> \<forall>r\<in>set rs. signal r = ''skip'' \<Longrightarrow> \<forall>r\<in>set rs. end_equity r = e"
  by (induction rs arbitrary: e) auto

lemma simulate_outcome:
  "\<exists>st. simulate df stop_pct = Inr st
     \<and> trades_of (rows st) = (if df = [] then Inl KeyError else Inr (rows st))
     \<and> map date (rows st) = sort (remdups (map bar_d df))
     \<and> ledger_replays START_EQUITY (rows st)
     \<and> equity st = last (START_EQUITY # map end_equity (rows st))
     \<and> (\<forall>r\<in>set (rows st). signal r = ''long'' \<or> signal r = ''short'' \<or> signal r = ''skip'')"
proof -
  obtain st new where o: "run_loop stop_pct (groupby_d df) init_state = Inr st"
     "rows st = rows init_state @ new"
     "map date new = map fst (groupby_d df)" "ledger_replays (equity init_state) new"
     "equity st = last (equity init_state # map end_equity new)"
     "\<forall>r\<in>set new. signal r = ''long'' \<or> signal r = ''short'' \<or> signal r = ''skip''"
    using run_loop_outcome[of "groupby_d df" stop_pct init_state] groupby_d_nonempty by blast
  have rs: "rows st = new" using o(2) by (simp add: init_state_def)
  have d: "map date (rows st) = sort (remdups (map bar_d df))"
    using o(3) rs groupby_d_days by simp
  then have "sorted (map date (rows st))" by simp
  then have srt: "sort_key date (rows st) = rows st"
    by (rule sort_key_id_if_sorted)
  have "length (rows st) = length (remdups (map bar_d df))"
    using d by (metis length_map length_sort)
  then have em: "rows st = [] \<longleftrightarrow> df = []" by auto
  have t: "trades_of (rows st) = (if df = [] then Inl KeyError else Inr (rows st))"
    using srt em by (simp add: trades_of_def)
  show ?thesis using o(1,4,5,6) rs d t by (auto simp add: simulate_def init_state_def)
qed

text \<open>A frame without a bar gives no row, and the run raises when it sorts the ledger.\<close>

lemma run_empty_frame: "run [] stop_pct = Inl KeyError"
  using simulate_outcome [of "[]" stop_pct] by (auto simp add: run_def)

section \<open>The scans as a search for the first breaching bar\<close>



lemma session_body_present:
  "\<exists>r mv'. session_body stop_pct day g mk (fb0 # fbs) (en0 # ens) (ex0 # exs) st =
            Inr \<lparr>equity = end_equity r, monthly_vol = mv', rows = rows st @ [r]\<rparr>
     \<and> signal r =
         (if isclose (bar_close fb0) (bar_open fb0) then ''skip''
          else if shares_for_trade (equity st) (bar_close en0) < MIN_FRACTIONAL_SHARES then ''skip''
          else if bar_close fb0 > bar_open fb0 then ''long'' else ''short'')
     \<and> (signal r \<noteq> ''skip'' \<longrightarrow>
           entry_price r = Some (bar_close en0) \<and>
           exit_price r = Some (fst (scan_stop (signal r)
               (stop_level_of (signal r) (bar_close en0) stop_pct) (bar_close ex0)
               (subsequent_bars g en0 ex0))) \<and>
           exit_reason r = snd (scan_stop (signal r)
               (stop_level_of (signal r) (bar_close en0) stop_pct) (bar_close ex0)
               (subsequent_bars g en0 ex0)))"
proof -
  let ?mv = "mv_init (monthly_vol st) mk"
  show ?thesis
  proof (cases "isclose (bar_close fb0) (bar_open fb0)")
    case True
    then show ?thesis
      by (intro exI[of _ "doji_row day (bar_open fb0) (bar_close fb0) (equity st) mk"] exI[of _ ?mv])
         (simp add: doji_row_def Let_def)
  next
    case nd: False
    show ?thesis
    proof (cases "shares_for_trade (equity st) (bar_close en0) < MIN_FRACTIONAL_SHARES")
      case True
      then show ?thesis using nd
        by (intro exI[of _ "too_small_row day (bar_open fb0) (bar_close fb0) (bar_close en0) (equity st) mk"] exI[of _ ?mv])
           (simp add: too_small_row_def Let_def FRACTIONAL_SHARES_def)
    next
      case big: False
      from shares_for_trade_lot[OF big] have pos: "bar_close en0 \<noteq> 0" by auto
      let ?sig = "if bar_close fb0 > bar_open fb0 then ''long'' else ''short''"
      let ?vol0 = "case monthly_vol st mk of None \<Rightarrow> 0 | Some v \<Rightarrow> v"
      let ?sh = "shares_for_trade (equity st) (bar_close en0)"
      obtain r where r: "trade_session stop_pct day ?sig g en0 ex0 (bar_open fb0) (bar_close fb0) mk
           (equity st) ?vol0 ?sh = Inr (r, equity st + net_pnl r, ?vol0 + ?sh + ?sh)"
        "signal r = ?sig" "end_equity r = equity st + net_pnl r"
        "entry_price r = Some (bar_close en0)"
        "exit_price r = Some (fst (scan_stop ?sig (stop_level_of ?sig (bar_close en0) stop_pct)
                 (bar_close ex0) (subsequent_bars g en0 ex0)))"
        "exit_reason r = snd (scan_stop ?sig (stop_level_of ?sig (bar_close en0) stop_pct)
                 (bar_close ex0) (subsequent_bars g en0 ex0))"
        using trade_session_Inr[OF pos] by blast
      have "session_body stop_pct day g mk (fb0 # fbs) (en0 # ens) (ex0 # exs) st =
          Inr \<lparr>equity = end_equity r, monthly_vol = ?mv(mk \<mapsto> ?vol0 + ?sh + ?sh),
             rows = rows st @ [r]\<rparr>"
        using nd big r(1) r(3)
        by (simp add: Let_def mv_init_same)
      then show ?thesis using r(2-6) nd big
        by (intro exI[of _ r] exI[of _ "?mv(mk \<mapsto> ?vol0 + ?sh + ?sh)"])
           (simp split: if_splits)
    qed
  qed
qed


section \<open>Evaluating concrete sessions\<close>

lemmas source_constants = FIRST_BAR_TIME_def ENTRY_TIME_def EXIT_TIME_def START_EQUITY_def
  ALLOC_PCT_def FRACTIONAL_SHARES_def MIN_FRACTIONAL_SHARES_def SLIPPAGE_PER_SHARE_def
  EXTRA_FEES_PER_SHARE_def PRICING_PLAN_def PF_RATE_PER_SHARE_def PF_MIN_PER_ORDER_def
  PF_MAX_RATE_OF_TRADE_def

lemmas session_eval = session_step_def init_state_def isclose_def rel_tol_def abs_tol_def
  shares_for_trade_def trade_session_def full_side_cost_def commission_one_side_def
  subsequent_bars_def stop_level_of_def mv_init_def Let_def groupby_d_def simulate_def
  mk_bar_def doji_row_def too_small_row_def missing_row_def

lemmas summary_eval = run_def summarize_def trades_of_def equity_curve_def drawdowns_def
  cummax_def series_min_def fdiv_def


section \<open>The signal of a session\<close>

lemma session_step_present:
  assumes "filter (\<lambda>b. bar_t b = FIRST_BAR_TIME) (sort_key date_local g0) = fb0 # fbs"
    and "filter (\<lambda>b. bar_t b = ENTRY_TIME) (sort_key date_local g0) = en0 # ens"
    and "filter (\<lambda>b. bar_t b = EXIT_TIME) (sort_key date_local g0) = ex0 # exs"
  shows "\<exists>r mv'. session_step stop_pct day g0 st =
            Inr \<lparr>equity = end_equity r, monthly_vol = mv', rows = rows st @ [r]\<rparr>
     \<and> signal r =
         (if isclose (bar_close fb0) (bar_open fb0) then ''skip''
          else if shares_for_trade (equity st) (bar_close en0) < MIN_FRACTIONAL_SHARES then ''skip''
          else if bar_close fb0 > bar_open fb0 then ''long'' else ''short'')
     \<and> (signal r \<noteq> ''skip'' \<longrightarrow>
           entry_price r = Some (bar_close en0) \<and>
           exit_price r = Some (fst (scan_stop (signal r)
               (stop_level_of (signal r) (bar_close en0) stop_pct) (bar_close ex0)
               (subsequent_bars (sort_key date_local g0) en0 ex0))) \<and>
           exit_reason r = snd (scan_stop (signal r)
               (stop_level_of (signal r) (bar_close en0) stop_pct) (bar_close ex0)
               (subsequent_bars (sort_key date_local g0) en0 ex0)))"
proof -
  obtain b0 bs where g: "sort_key date_local g0 = b0 # bs"
    using assms(1) by (cases "sort_key date_local g0") auto
  have e: "session_step stop_pct day g0 st =
     session_body stop_pct day (sort_key date_local g0) (bar_month_key b0)
            (fb0 # fbs) (en0 # ens) (ex0 # exs) st"
    using assms g by (simp add: session_step_def Let_def)
  show ?thesis unfolding e
    by (rule session_body_present)
qed


text \<open>
  C1, as the code has it. In \<^verbatim>\<open>backtest.py\<close> a session with its three bars records
  the signal skip when \<^verbatim>\<open>math.isclose\<close> holds of the close and the open of the first
  bar (relative tolerance 1e-9, so also when they are equal) or when the position is
  below the minimum lot, and otherwise long for a close above the open and short for a
  close below it: long is recorded only above, short only below. The sign of
  \<^verbatim>\<open>research_algo.py\<close> compares exactly: 1 above, -1 below, 0 at equality.
  \<^verbatim>\<open>range_breakout.py\<close> gives LONG above and SHORT below.
\<close>

theorem signal_of_reference_bar:
  assumes "filter (\<lambda>b. bar_t b = FIRST_BAR_TIME) (sort_key date_local g0) = fb0 # fbs"
    and "filter (\<lambda>b. bar_t b = ENTRY_TIME) (sort_key date_local g0) = en0 # ens"
    and "filter (\<lambda>b. bar_t b = EXIT_TIME) (sort_key date_local g0) = ex0 # exs"
  shows "(\<exists>st' r. session_step stop_pct day g0 st = Inr st' \<and> rows st' = rows st @ [r]
           \<and> signal r =
               (if isclose (bar_close fb0) (bar_open fb0) then ''skip''
                else if shares_for_trade (equity st) (bar_close en0) < MIN_FRACTIONAL_SHARES
                  then ''skip''
                else if bar_close fb0 > bar_open fb0 then ''long'' else ''short'')
           \<and> (bar_close fb0 = bar_open fb0 \<longrightarrow> signal r = ''skip'')
           \<and> (signal r = ''long'' \<longrightarrow> bar_close fb0 > bar_open fb0)
           \<and> (signal r = ''short'' \<longrightarrow> bar_close fb0 < bar_open fb0))
       \<and> fst (points_direction o0930 c0930) =
           (if c0930 > o0930 then 1 else if c0930 < o0930 then - 1 else 0)
       \<and> (c0930 > o0930 \<longrightarrow> rb_direction o0930 c0930 = ''LONG'')
       \<and> (c0930 < o0930 \<longrightarrow> rb_direction o0930 c0930 = ''SHORT'')"
proof -
  obtain r mv' where o: "session_step stop_pct day g0 st =
            Inr \<lparr>equity = end_equity r, monthly_vol = mv', rows = rows st @ [r]\<rparr>"
     "signal r =
         (if isclose (bar_close fb0) (bar_open fb0) then ''skip''
          else if shares_for_trade (equity st) (bar_close en0) < MIN_FRACTIONAL_SHARES then ''skip''
          else if bar_close fb0 > bar_open fb0 then ''long'' else ''short'')"
    using session_step_present[OF assms, of stop_pct day st] by blast
  have eqc: "\<not> isclose (bar_close fb0) (bar_open fb0) \<longrightarrow> bar_close fb0 \<noteq> bar_open fb0"
    by (simp add: isclose_def)
  have a: "bar_close fb0 = bar_open fb0 \<longrightarrow> signal r = ''skip''"
    using o(2) eqc by auto
  have b: "signal r = ''long'' \<longrightarrow> bar_close fb0 > bar_open fb0"
    using o(2) by (simp split: if_splits)
  have c: "signal r = ''short'' \<longrightarrow> bar_close fb0 < bar_open fb0"
    using o(2) eqc by (cases "isclose (bar_close fb0) (bar_open fb0)") (auto split: if_splits)
  have first: "\<exists>st' r. session_step stop_pct day g0 st = Inr st' \<and> rows st' = rows st @ [r]
           \<and> signal r =
               (if isclose (bar_close fb0) (bar_open fb0) then ''skip''
                else if shares_for_trade (equity st) (bar_close en0) < MIN_FRACTIONAL_SHARES
                  then ''skip''
                else if bar_close fb0 > bar_open fb0 then ''long'' else ''short'')
           \<and> (bar_close fb0 = bar_open fb0 \<longrightarrow> signal r = ''skip'')
           \<and> (signal r = ''long'' \<longrightarrow> bar_close fb0 > bar_open fb0)
           \<and> (signal r = ''short'' \<longrightarrow> bar_close fb0 < bar_open fb0)"
    using o a b c
    by (intro exI[of _ "\<lparr>equity = end_equity r, monthly_vol = mv', rows = rows st @ [r]\<rparr>"] exI[of _ r])
       simp
  show ?thesis
    using first by (simp add: points_direction_def rb_direction_def)
qed

theorem signal_of_reference_bar_witness:
  "\<exists>st'. session_step (5 / 1000) 1 ex_long_day init_state = Inr st'
     \<and> map first_bar_open (rows st') = [Some 100] \<and> map first_bar_close (rows st') = [Some 101]
     \<and> map signal (rows st') = [''long'']
     \<and> fst (points_direction 101 100) = - 1 \<and> rb_direction 100 101 = ''LONG''"
  using signal_of_reference_bar [where ?g0.0 = ex_long_day
      and ?fb0.0 = "mk_bar 570 1 ''09:30'' ''2024-01'' 100 101 100 101" and fbs = "[]"
      and ?en0.0 = "mk_bar 585 1 ''09:45'' ''2024-01'' 101 101 100 100" and ens = "[]"
      and ?ex0.0 = "mk_bar 690 1 ''11:30'' ''2024-01'' (1002 / 10) (1006 / 10) (1001 / 10) (1005 / 10)"
      and exs = "[]" and stop_pct = "5 / 1000" and day = 1 and st = init_state
      and ?o0930.0 = 101 and ?c0930.0 = 100]
  by (simp add: ex_long_day_def source_constants session_eval points_direction_def rb_direction_def)

text \<open>
  C1, as stated, fails: the first bar of this session closes above its open, by less
  than the tolerance of \<^verbatim>\<open>math.isclose\<close>, and the run records the session as a doji
  skip, not as long.
\<close>

theorem near_doji_skipped_counterexample:
  "\<exists>trades s. run ex_near_doji_day (5 / 1000) = Inr (trades, s)
     \<and> map first_bar_open trades = [Some 400]
     \<and> map first_bar_close trades = [Some (4000000001 / 10000000)]
     \<and> (400 :: real) < 4000000001 / 10000000
     \<and> map signal trades = [''skip''] \<and> map exit_reason trades = [''doji_skip'']"
  by (simp add: ex_near_doji_day_def source_constants session_eval summary_eval)

section \<open>The exit of a session\<close>






section \<open>Equity along the ledger\<close>

text \<open>
  C3. A run over a frame with at least one bar returns a ledger, with at least one
  row, that replays: the first row starts at the starting equity, every row ends at its
  start plus its net P&L, every row starts where the previous one ended, a skipped row
  ends where it started, and the column of ending equities is the running sum of the
  net P&L values from the starting equity. (A frame without a bar has no ledger: the
  run raises, see \<open>run_empty_frame\<close>.)
\<close>

theorem ledger_replays_running_sum_of_run:
  assumes "df \<noteq> []"
  shows "\<exists>trades s. run df stop_pct = Inr (trades, s) \<and> trades \<noteq> []
     \<and> ledger_replays START_EQUITY trades
     \<and> map end_equity trades = running_sum START_EQUITY (map net_pnl trades)
     \<and> (\<forall>r\<in>set trades. end_equity r = start_equity r + net_pnl r)"
proof -
  obtain st where st: "simulate df stop_pct = Inr st"
    "trades_of (rows st) = (if df = [] then Inl KeyError else Inr (rows st))"
    "ledger_replays START_EQUITY (rows st)"
    using simulate_outcome[of df stop_pct] by blast
  from st(2) assms have t: "trades_of (rows st) = Inr (rows st)" by simp
  then have ne: "rows st \<noteq> []" by (auto simp add: trades_of_def split: if_splits)
  have a: "\<forall>r\<in>set rs. end_equity r = start_equity r + net_pnl r" if "ledger_replays e rs" for e rs
    using that by (induction rs arbitrary: e) auto
  show ?thesis
    using st(1) t ne st(3) ledger_replays_running_sum[OF st(3)] a[OF st(3)]
    by (simp add: run_def)
qed

theorem ledger_replays_running_sum_of_run_witness:
  "\<exists>trades s. run (ex_long_day @ ex_short_stop_day @ ex_missing_day) (5 / 1000) = Inr (trades, s)
     \<and> map signal trades = [''long'', ''short'', ''skip'']
     \<and> map start_equity trades = [100, 197 / 2, 3841303 / 40000]
     \<and> map net_pnl trades = [- (3 / 2), - (98697 / 40000), 0]
     \<and> map end_equity trades = [197 / 2, 3841303 / 40000, 3841303 / 40000]
     \<and> map end_equity trades = running_sum START_EQUITY (map net_pnl trades)"
  using ledger_replays_running_sum_of_run [of "ex_long_day @ ex_short_stop_day @ ex_missing_day" "5 / 1000"]
  by (simp add: ex_long_day_def ex_short_stop_day_def ex_missing_day_def source_constants
      session_eval summary_eval)

text \<open>
  C5, as the code has it. A session that records a skip row records net P&L 0 and
  0 shares, starts and ends the row at the equity of the run and leaves that equity
  unchanged. The monthly volumes keep every entry they had; the one change is that the
  month of the session, when it has no entry yet, gets the entry 0, so the volume read
  for any month is the same before and after.
\<close>

theorem skip_session_frame:
  assumes "session_step stop_pct day g0 st = Inr st'"
    and "rows st' = rows st @ [r]"
    and "signal r = ''skip''"
  shows "net_pnl r = 0 \<and> shares r = 0
       \<and> start_equity r = equity st \<and> end_equity r = equity st \<and> equity st' = equity st
       \<and> (\<exists>b\<in>set g0. monthly_vol st' = mv_init (monthly_vol st) (bar_month_key b))
       \<and> (\<forall>k v. monthly_vol st k = Some v \<longrightarrow> monthly_vol st' k = Some v)
       \<and> (\<forall>k. (case monthly_vol st' k of None \<Rightarrow> 0 | Some v \<Rightarrow> v) =
                (case monthly_vol st k of None \<Rightarrow> 0 | Some v \<Rightarrow> v))"
proof -
  have ne: "g0 \<noteq> []"
    using assms(1) by (auto simp add: session_step_def)
  obtain r' mv' where o: "session_step stop_pct day g0 st =
            Inr \<lparr>equity = end_equity r', monthly_vol = mv', rows = rows st @ [r']\<rparr>"
     "start_equity r' = equity st" "end_equity r' = equity st + net_pnl r'"
     "signal r' = ''skip'' \<longrightarrow> net_pnl r' = 0 \<and> shares r' = 0 \<and>
           (\<exists>b\<in>set g0. mv' = mv_init (monthly_vol st) (bar_month_key b))"
    using session_step_outcome[OF ne, of stop_pct day st] by blast
  from o(1) assms(1) have st': "st' = \<lparr>equity = end_equity r', monthly_vol = mv', rows = rows st @ [r']\<rparr>"
    by simp
  with assms(2) have rr: "r' = r" by simp
  from o(4) rr assms(3) obtain b where b: "b \<in> set g0" "mv' = mv_init (monthly_vol st) (bar_month_key b)"
    and z: "net_pnl r = 0" "shares r = 0" by auto
  have m1: "\<forall>k v. monthly_vol st k = Some v \<longrightarrow> mv' k = Some v"
    unfolding b(2) by (auto simp add: mv_init_def split: option.splits)
  have m2: "\<forall>k. (case mv' k of None \<Rightarrow> 0 | Some v \<Rightarrow> v) =
                (case monthly_vol st k of None \<Rightarrow> 0 | Some v \<Rightarrow> v)"
    unfolding b(2) by (auto simp add: mv_init_def split: option.splits)
  show ?thesis
    using z o(2,3) rr b m1 m2 unfolding st' by auto
qed

theorem skip_session_frame_witness:
  "\<exists>st'. session_step (5 / 1000) 33 ex_missing_day init_state = Inr st'
     \<and> map signal (rows st') = [''skip''] \<and> map net_pnl (rows st') = [0]
     \<and> map start_equity (rows st') = [100] \<and> map end_equity (rows st') = [100]
     \<and> equity st' = 100
     \<and> monthly_vol st' = mv_init Map.empty ''2024-02''"
  using skip_session_frame [of "5 / 1000" 33 ex_missing_day init_state _ "missing_row 33 100 ''2024-02''"]
  by (simp add: ex_missing_day_def source_constants session_eval)

text \<open>
  C5, as stated, fails: the first session of a run has a single bar at 10:00 and is
  skipped as missing, and the dictionary of monthly volumes, empty before, holds the
  month of the session afterwards.
\<close>

theorem skip_session_initialises_month_counterexample:
  "\<exists>st'. session_step (5 / 1000) 33 ex_missing_day init_state = Inr st'
     \<and> map signal (rows st') = [''skip'']
     \<and> monthly_vol init_state ''2024-02'' = None
     \<and> monthly_vol st' ''2024-02'' = Some 0
     \<and> monthly_vol st' \<noteq> monthly_vol init_state"
  by (auto simp add: ex_missing_day_def source_constants session_eval dest: fun_cong)

section \<open>The summary of a ledger without trades\<close>

lemma cummax_from_constant:
  "\<forall>x\<in>set xs. x = m \<Longrightarrow> cummax_from m xs = xs"
  by (induction xs) auto

lemma cummax_constant:
  "\<forall>x\<in>set xs. x = m \<Longrightarrow> cummax xs = xs"
  by (cases xs) (auto simp add: cummax_def cummax_from_constant)

lemma drawdowns_constant:
  assumes "\<forall>x\<in>set xs. x = m" and "m \<noteq> 0"
  shows "drawdowns xs = map (\<lambda>x. Fin 0) xs"
proof -
  have "map (\<lambda>(e, m). fminus1 (fdiv e m)) (zip xs xs) = map (\<lambda>x. Fin 0) xs"
    using assms by (induction xs) (auto simp add: fdiv_def)
  then show ?thesis
    using assms(1) by (simp add: drawdowns_def cummax_constant)
qed

lemma series_min_zeros:
  "xs \<noteq> [] \<Longrightarrow> series_min (map (\<lambda>x. Fin 0) xs) = Fin 0"
proof (induction xs)
  case Nil
  then show ?case by simp
next
  case (Cons x xs)
  then show ?case by (cases xs) (auto simp add: series_min_def)
qed

lemma summarize_all_skipped:
  assumes "trades \<noteq> []" and "\<forall>r\<in>set trades. signal r = ''skip'' \<and> end_equity r = START_EQUITY"
  shows "n_trades (summarize trades) = 0 \<and> win_rate (summarize trades) = None
       \<and> max_dd_pct (summarize trades) = Fin 0"
proof -
  have v: "filter (\<lambda>r. signal r \<in> set [''long'', ''short'']) trades = []"
    using assms(2) by (auto simp add: filter_empty_conv)
  have c: "\<forall>x\<in>set (equity_curve trades). x = START_EQUITY"
    using assms(2) by (auto simp add: equity_curve_def)
  have d: "drawdowns (equity_curve trades) = map (\<lambda>x. Fin 0) (equity_curve trades)"
    using drawdowns_constant[OF c] by (simp add: START_EQUITY_def)
  have ne: "equity_curve trades \<noteq> []" using assms(1) by (simp add: equity_curve_def)
  have m: "series_min (drawdowns (equity_curve trades)) = Fin 0"
    unfolding d using series_min_zeros[OF ne] .
  have dne: "drawdowns (equity_curve trades) \<noteq> []" using d ne by simp
  show ?thesis
    using v m dne by (simp add: summarize_def Let_def)
qed

text \<open>
  C9, as the code has it. A run over a frame with at least one bar returns a ledger
  with at least one row; when none of its rows is a trade the win rate is undefined
  (\<^verbatim>\<open>nan\<close>) and the maximum drawdown is 0: the equity curve stays at the starting
  equity, and each quotient by the running maximum is 1.
\<close>

theorem zero_trades_summary:
  assumes "df \<noteq> []"
  shows "\<exists>trades s. run df stop_pct = Inr (trades, s) \<and> trades \<noteq> []
     \<and> (n_trades s = 0 \<longrightarrow> win_rate s = None \<and> max_dd_pct s = Fin 0)"
proof -
  obtain st where st: "simulate df stop_pct = Inr st"
    "trades_of (rows st) = (if df = [] then Inl KeyError else Inr (rows st))"
    "map date (rows st) = sort (remdups (map bar_d df))"
    "ledger_replays START_EQUITY (rows st)"
    "\<forall>r\<in>set (rows st). signal r = ''long'' \<or> signal r = ''short'' \<or> signal r = ''skip''"
    using simulate_outcome[of df stop_pct] by blast
  from st(2) assms have t: "trades_of (rows st) = Inr (rows st)" by simp
  have "length (rows st) = length (remdups (map bar_d df))"
    using st(3) by (metis length_map length_sort)
  then have ne: "rows st \<noteq> []" using assms by auto
  have z: "win_rate (summarize (rows st)) = None \<and> max_dd_pct (summarize (rows st)) = Fin 0"
    if n0: "n_trades (summarize (rows st)) = 0"
  proof -
    from n0 have "filter (\<lambda>r. signal r \<in> set [''long'', ''short'']) (rows st) = []"
      by (simp add: summarize_def Let_def)
    then have sk: "\<forall>r\<in>set (rows st). signal r = ''skip''"
      using st(5) by (auto simp add: filter_empty_conv)
    from ledger_replays_all_skip[OF st(4) sk]
    have "\<forall>r\<in>set (rows st). signal r = ''skip'' \<and> end_equity r = START_EQUITY"
      using sk by simp
    from summarize_all_skipped[OF ne this] show ?thesis by simp
  qed
  show ?thesis
    using st(1) t ne z by (simp add: run_def)
qed

theorem zero_trades_summary_witness:
  "\<exists>trades s. run ex_near_doji_day (5 / 1000) = Inr (trades, s)
     \<and> map signal trades = [''skip'']
     \<and> n_trades s = 0 \<and> win_rate s = None \<and> max_dd_pct s = Fin 0"
  using zero_trades_summary [of ex_near_doji_day "5 / 1000"]
  by (simp add: ex_near_doji_day_def source_constants session_eval summary_eval)

text \<open>
  C9, as stated, fails: the only session of this run is skipped, the ledger has no
  trade, and the maximum drawdown is reported as 0, not as \<^verbatim>\<open>nan\<close>.
\<close>

theorem zero_trades_drawdown_counterexample:
  "\<exists>trades s. run ex_missing_day (5 / 1000) = Inr (trades, s)
     \<and> map signal trades = [''skip'']
     \<and> n_trades s = 0 \<and> max_dd_pct s = Fin 0 \<and> max_dd_pct s \<noteq> NaN"
  by (simp add: ex_missing_day_def source_constants session_eval summary_eval)

section \<open>Equity at or below zero\<close>

text \<open>
  From a state of the loop whose equity is not positive, the loop over any further
  groups, none of them empty, returns with the same equity and appends skips only.
\<close>

lemma run_loop_nonpositive_equity:
  assumes "equity st \<le> 0" and "\<forall>p\<in>set gs. snd p \<noteq> []"
  shows "shares_for_trade (equity st) price = 0
     \<and> (\<exists>st' new. run_loop stop_pct gs st = Inr st' \<and> equity st' = equity st
           \<and> rows st' = rows st @ new \<and> length new = length gs
           \<and> (\<forall>r\<in>set new. signal r = ''skip'' \<and> shares r = 0 \<and> net_pnl r = 0
                 \<and> start_equity r = equity st \<and> end_equity r = equity st))"
proof -
  have loop: "\<exists>st' new. run_loop stop_pct gs st = Inr st' \<and> equity st' = equity st
           \<and> rows st' = rows st @ new \<and> length new = length gs
           \<and> (\<forall>r\<in>set new. signal r = ''skip'' \<and> shares r = 0 \<and> net_pnl r = 0
                 \<and> start_equity r = equity st \<and> end_equity r = equity st)"
    using assms
  proof (induction gs arbitrary: st)
    case Nil
    then show ?case by simp
  next
    case (Cons p gs)
    obtain day g0 where p: "p = (day, g0)" by (cases p)
    from Cons.prems p have ne: "g0 \<noteq> []" and rest: "\<forall>p\<in>set gs. snd p \<noteq> []" by auto
    obtain r mv' where s1: "session_step stop_pct day g0 st =
            Inr \<lparr>equity = end_equity r, monthly_vol = mv', rows = rows st @ [r]\<rparr>"
      and r: "start_equity r = equity st" "end_equity r = equity st + net_pnl r"
        "signal r = ''skip'' \<longrightarrow> net_pnl r = 0 \<and> shares r = 0"
        "equity st \<le> 0 \<longrightarrow> signal r = ''skip''"
      using session_step_outcome[OF ne, of stop_pct day st] by blast
    from r Cons.prems(1) have sk: "signal r = ''skip''" "net_pnl r = 0" "shares r = 0"
      "end_equity r = equity st" by auto
    let ?st1 = "\<lparr>equity = end_equity r, monthly_vol = mv', rows = rows st @ [r]\<rparr>"
    have e1: "equity ?st1 \<le> 0" using sk(4) Cons.prems(1) by simp
    obtain st' new where ih: "run_loop stop_pct gs ?st1 = Inr st'" "equity st' = equity ?st1"
      "rows st' = rows ?st1 @ new" "length new = length gs"
      "\<forall>r\<in>set new. signal r = ''skip'' \<and> shares r = 0 \<and> net_pnl r = 0
                 \<and> start_equity r = equity ?st1 \<and> end_equity r = equity ?st1"
      using Cons.IH[OF e1 rest] by blast
    show ?case
      using s1 sk r(1) ih p
      by (intro exI[of _ st'] exI[of _ "r # new"]) auto
  qed
  show ?thesis
    using loop shares_for_trade_nonpos_equity[OF assms(1)] by blast
qed

lemma run_loop_append:
  "run_loop stop_pct (gs1 @ gs2) st =
     (case run_loop stop_pct gs1 st of Inl e \<Rightarrow> Inl e | Inr st1 \<Rightarrow> run_loop stop_pct gs2 st1)"
  by (induction gs1 arbitrary: st) (auto split: sum.splits)

text \<open>
  C10. When the loop has reached, after some of the days of a run, a state whose equity
  is not positive, the sizer returns 0 shares at every price, and the run returns with
  that same equity: each remaining day appends one row, a skip with 0 shares and net
  P&L 0 that starts and ends at that equity.
\<close>

theorem nonpositive_equity_absorbing:
  assumes "groupby_d df = gs1 @ gs2"
    and "run_loop stop_pct gs1 init_state = Inr st1"
    and "equity st1 \<le> 0"
  shows "shares_for_trade (equity st1) price = 0
     \<and> (\<exists>st2 new. simulate df stop_pct = Inr st2 \<and> equity st2 = equity st1
           \<and> rows st2 = rows st1 @ new \<and> length new = length gs2
           \<and> (\<forall>r\<in>set new. signal r = ''skip'' \<and> shares r = 0 \<and> net_pnl r = 0
                 \<and> start_equity r = equity st1 \<and> end_equity r = equity st1))"
proof -
  have ne: "\<forall>p\<in>set gs2. snd p \<noteq> []"
  proof
    fix p assume "p \<in> set gs2"
    then have "p \<in> set (groupby_d df)" using assms(1) by simp
    then show "snd p \<noteq> []" by (rule groupby_d_nonempty)
  qed
  have "simulate df stop_pct = run_loop stop_pct gs2 st1"
    using assms(1,2) by (simp add: simulate_def run_loop_append)
  then show ?thesis
    using run_loop_nonpositive_equity[OF assms(3) ne, of price stop_pct] by simp
qed

theorem nonpositive_equity_absorbing_witness:
  "\<exists>st1 st2. run_loop 1 (groupby_d ex_crash_day) init_state = Inr st1
     \<and> map signal (rows st1) = [''short''] \<and> equity st1 = - 2
     \<and> shares_for_trade (equity st1) 100 = 0
     \<and> simulate (ex_crash_day @ ex_short_stop_day) 1 = Inr st2
     \<and> equity st2 = - 2
     \<and> map signal (rows st2) = [''short'', ''skip'']"
proof -
  obtain st1 where s1: "run_loop 1 (groupby_d ex_crash_day) init_state = Inr st1"
    "equity st1 = - 2" "map signal (rows st1) = [''short'']"
    by (simp add: ex_crash_day_def source_constants session_eval)
  have h1: "equity st1 \<le> 0" using s1(2) by simp
  have g: "groupby_d (ex_crash_day @ ex_short_stop_day) =
      groupby_d ex_crash_day @ groupby_d ex_short_stop_day"
    by (simp add: groupby_d_def ex_crash_day_def ex_short_stop_day_def mk_bar_def)
  have l: "length (groupby_d ex_short_stop_day) = 1"
    by (simp add: groupby_d_def ex_short_stop_day_def mk_bar_def)
  from nonpositive_equity_absorbing [OF g s1(1) h1, of 100]
  obtain st2 new where o: "shares_for_trade (equity st1) 100 = 0"
    "simulate (ex_crash_day @ ex_short_stop_day) 1 = Inr st2" "equity st2 = equity st1"
    "rows st2 = rows st1 @ new" "length new = length (groupby_d ex_short_stop_day)"
    "\<forall>r\<in>set new. signal r = ''skip''"
    by auto
  from o(5) l obtain r where n: "new = [r]"
    by (cases new) auto
  with o(6) have "map signal new = [''skip'']" by simp
  with o s1 show ?thesis by auto
qed

end
